theory Spec2Isabelle
  imports Main
begin

section \<open>Python values and errors\<close>

text \<open>
  A Python \<open>str\<close> is a sequence of code points, and may hold a lone surrogate. The
  texts whose characters the program reads or writes (the text and the attribute values
  of the page, the keys and values of the records, the contents of a file) are lists of
  code points, \<open>pystr\<close>; \<open>str\<close> gives the code points of a literal. The names of
  tags, classes and attributes, the selectors, the paths, the URLs and the log messages
  stay \<open>string\<close>s: the program only compares them and passes them on.

  The values a record of the scraper can hold are \<open>None\<close> and strings. Every
  exception the program or the library calls it makes can raise is a value of
  \<open>error\<close>; a function that can raise returns \<open>error + 'a\<close>.
\<close>

type_synonym pystr = "int list"

definition str :: "string \<Rightarrow> pystr" where
  "str s = map of_char s"

datatype pyval = PyNone | PyStr pystr

datatype error =
    AttributeError
  | ValueError
  | CsvError
  | FileNotFoundError
  | UnicodeEncodeError
  | UnicodeDecodeError
  | HTTPError int
  | RetryError
  | ConnectionError

text \<open>A \<open>dict\<close> keeps insertion order: an association list with distinct keys.\<close>

type_synonym item = "(pystr \<times> pyval) list"

definition keys :: "item \<Rightarrow> pystr list" where
  "keys d = map fst d"

text \<open>\<open>d.get(key, default)\<close>\<close>

definition dict_get :: "item \<Rightarrow> pystr \<Rightarrow> pyval \<Rightarrow> pyval" where
  "dict_get d k dflt = (case map_of d k of None \<Rightarrow> dflt | Some v \<Rightarrow> v)"

text \<open>Sequencing: an exception ends the computation.\<close>

definition and_then :: "error + 'a \<Rightarrow> ('a \<Rightarrow> error + 'b) \<Rightarrow> error + 'b" where
  "and_then r f = (case r of Inl e \<Rightarrow> Inl e | Inr x \<Rightarrow> f x)"

text \<open>\<open>a or b\<close> on values that are \<open>None\<close> or an object that is always true.\<close>

definition py_or :: "'a option \<Rightarrow> 'a option \<Rightarrow> 'a option" where
  "py_or a b = (case a of Some x \<Rightarrow> Some x | None \<Rightarrow> b)"

section \<open>The document tree of BeautifulSoup\<close>

text \<open>
  \<open>str.isspace\<close> on a code point, and \<open>str.strip()\<close>, which removes the characters
  it holds true of from both ends.
\<close>

definition isspace :: "int \<Rightarrow> bool" where
  "isspace n =
     ((0x09 \<le> n \<and> n \<le> 0x0D) \<or> (0x1C \<le> n \<and> n \<le> 0x20) \<or> n = 0x85 \<or> n = 0xA0 \<or>
      n = 0x1680 \<or> (0x2000 \<le> n \<and> n \<le> 0x200A) \<or> n = 0x2028 \<or> n = 0x2029 \<or>
      n = 0x202F \<or> n = 0x205F \<or> n = 0x3000)"

definition strip :: "pystr \<Rightarrow> pystr" where
  "strip s = rev (dropWhile isspace (rev (dropWhile isspace s)))"

text \<open>
  The tree \<open>BeautifulSoup(html, "lxml")\<close> builds. A string of the tree is an object of
  \<open>NavigableString\<close> or of one of its subclasses: \<open>CData\<close>; \<open>Comment\<close> (which
  stands here for \<open>Doctype\<close>, \<open>Declaration\<close> and \<open>ProcessingInstruction\<close> too); and the
  classes the builder gives to the strings inside \<open>script\<close>, \<open>style\<close>, \<open>template\<close>,
  \<open>rt\<close> and \<open>rp\<close>.

  A node is such a string, with its class, or a \<open>Tag\<close> with its name, the list of
  class names its \<open>class\<close> attribute was split into, its other attributes, and its
  children. The \<open>BeautifulSoup\<close> object is the root, a tag named \<open>[document]\<close>.

  A \<open>Tag\<close> object knows its parent, so an element is a node together with the chain of
  its ancestors, the nearest first.
\<close>

datatype string_class =
    NavigableStringC
  | CDataC
  | CommentC
  | ScriptC
  | StylesheetC
  | TemplateStringC
  | RubyTextStringC
  | RubyParenthesisStringC

datatype node =
    NavigableString string_class pystr
  | Tag string "string list" "(string \<times> pystr) list" "node list"

type_synonym element = "node list \<times> node"

text \<open>\<open>tag.descendants\<close>: every node below the tag, in document order.\<close>

fun descendants :: "node list \<Rightarrow> node \<Rightarrow> element list" where
  "descendants ps (NavigableString k s) = []"
| "descendants ps (Tag n cl at ch) =
     concat (map (\<lambda>c. (Tag n cl at ch # ps, c) # descendants (Tag n cl at ch # ps) c) ch)"

text \<open>The strings below a node, with their classes, in document order.\<close>

fun strings :: "node \<Rightarrow> (string_class \<times> pystr) list" where
  "strings (NavigableString k s) = [(k, s)]"
| "strings (Tag n cl at ch) = concat (map strings ch)"

text \<open>
  \<open>tag.interesting_string_types\<close>: the classes of string that count as the text of a
  tag. For the tags that hold a special class of string it is that class alone;
  otherwise \<open>NavigableString\<close> and \<open>CData\<close>. The class must be one of these exactly.
\<close>

fun interesting_string_types :: "node \<Rightarrow> string_class list" where
  "interesting_string_types (NavigableString k s) = [NavigableStringC, CDataC]"
| "interesting_string_types (Tag n cl at ch) =
     (if n = ''rt'' then [RubyTextStringC]
      else if n = ''rp'' then [RubyParenthesisStringC]
      else if n = ''style'' then [StylesheetC]
      else if n = ''script'' then [ScriptC]
      else if n = ''template'' then [TemplateStringC]
      else [NavigableStringC, CDataC])"

text \<open>
  \<open>tag.get_text(strip=True)\<close>: each string below the tag whose class is interesting to
  the tag is stripped, the empty ones are dropped, and the rest are joined with the
  empty separator. Called on \<open>None\<close> it raises \<open>AttributeError\<close>.
\<close>

definition get_text :: "element option \<Rightarrow> error + pystr" where
  "get_text t = (case t of
       None \<Rightarrow> Inl AttributeError
     | Some e \<Rightarrow>
         Inr (concat (filter (\<lambda>s. s \<noteq> [])
           (map (\<lambda>(k, s). strip s)
             (filter (\<lambda>(k, s). k \<in> set (interesting_string_types (snd e)))
               (strings (snd e)))))))"

text \<open>\<open>tag.get(key)\<close>: the attribute's value, \<open>None\<close> when the tag has no such attribute.\<close>

definition tag_get :: "element option \<Rightarrow> string \<Rightarrow> error + pyval" where
  "tag_get t key = (case t of
       None \<Rightarrow> Inl AttributeError
     | Some (ps, NavigableString k s) \<Rightarrow> Inl AttributeError
     | Some (ps, Tag n cl at ch) \<Rightarrow>
         Inr (case map_of at key of None \<Rightarrow> PyNone | Some v \<Rightarrow> PyStr v))"

subsection \<open>CSS selectors\<close>

text \<open>
  The selectors of the program are built from a type selector, class selectors and the
  descendant combinator. A compound selector is an optional element name and a list of
  class names; a selector is a list of compounds separated by blanks, the subject last.
\<close>

record compound =
  sel_name :: "string option"
  sel_classes :: "string list"

fun split_on :: "char \<Rightarrow> string \<Rightarrow> string list" where
  "split_on d [] = [[]]"
| "split_on d (c # cs) =
     (if c = d then [] # split_on d cs
      else (case split_on d cs of [] \<Rightarrow> [[c]] | w # ws \<Rightarrow> (c # w) # ws))"

definition compound_of :: "string \<Rightarrow> compound" where
  "compound_of s = (case split_on CHR ''.'' s of
       [] \<Rightarrow> \<lparr>sel_name = None, sel_classes = []\<rparr>
     | t # cls \<Rightarrow> \<lparr>sel_name = (if t = [] then None else Some t), sel_classes = cls\<rparr>)"

definition selector_of :: "string \<Rightarrow> compound list" where
  "selector_of s = map compound_of (filter (\<lambda>w. w \<noteq> []) (split_on CHR '' '' s))"

fun matches_compound :: "compound \<Rightarrow> node \<Rightarrow> bool" where
  "matches_compound cp (NavigableString k s) = False"
| "matches_compound cp (Tag n cl at ch) =
     ((case sel_name cp of None \<Rightarrow> True | Some t \<Rightarrow> t = n) \<and>
      list_all (\<lambda>k. k \<in> set cl) (sel_classes cp))"

text \<open>
  The compounds left of the subject, nearest first, against the ancestors, nearest
  first: each must match some ancestor above the one that matched the compound before.
  The ancestors are those of the whole document, not only those inside the tag that
  \<open>select\<close> was called on.
\<close>

fun matches_ancestors :: "compound list \<Rightarrow> node list \<Rightarrow> bool" where
  "matches_ancestors [] ps = True"
| "matches_ancestors (cp # cps) [] = False"
| "matches_ancestors (cp # cps) (p # ps) =
     ((matches_compound cp p \<and> matches_ancestors cps ps) \<or> matches_ancestors (cp # cps) ps)"

definition matches :: "compound list \<Rightarrow> element \<Rightarrow> bool" where
  "matches sel e = (case rev sel of
       [] \<Rightarrow> False
     | cp # cps \<Rightarrow> matches_compound cp (snd e) \<and> matches_ancestors cps (fst e))"

text \<open>\<open>tag.select(selector)\<close>: the descendants of the tag that match, in document order.\<close>

definition select :: "element \<Rightarrow> string \<Rightarrow> element list" where
  "select e s = filter (matches (selector_of s)) (descendants (fst e) (snd e))"

text \<open>\<open>tag.select_one(selector)\<close>: the first of them, or \<open>None\<close>.\<close>

definition select_one :: "element \<Rightarrow> string \<Rightarrow> element option" where
  "select_one e s = (case select e s of [] \<Rightarrow> None | x # xs \<Rightarrow> Some x)"

section \<open>The parser: \<open>parse_products\<close>\<close>

text \<open>
  The title element of a container:
  \<open>c.select_one("a.title") or c.select_one("a")\<close>, and the like for the other fields.
\<close>

definition title_tag :: "element \<Rightarrow> element option" where
  "title_tag c = py_or (select_one c ''a.title'') (select_one c ''a'')"

definition price_tag :: "element \<Rightarrow> element option" where
  "price_tag c = py_or (select_one c ''h4.price'') (select_one c ''.price'')"

definition desc_tag :: "element \<Rightarrow> element option" where
  "desc_tag c = py_or (select_one c ''p.description'') (select_one c ''p'')"

definition reviews_tag :: "element \<Rightarrow> element option" where
  "reviews_tag c =
     py_or (select_one c ''div.ratings p.pull-right'') (select_one c ''.ratings'')"

text \<open>\<open>tag.get_text(strip=True) if tag else ""\<close>; a \<open>Tag\<close> object is always true.\<close>

definition text_or_empty :: "element option \<Rightarrow> error + pystr" where
  "text_or_empty t = (if t \<noteq> None then get_text t else Inr [])"

text \<open>\<open>tag.get("href") if tag else ""\<close>\<close>

definition href_or_empty :: "element option \<Rightarrow> error + pyval" where
  "href_or_empty t = (if t \<noteq> None then tag_get t ''href'' else Inr (PyStr []))"

text \<open>
  The body of the loop of \<open>parse_products\<close>: the record of one container. The method
  calls are made on values that may be \<open>None\<close>, behind the guards the source has.
\<close>

definition product_record :: "element \<Rightarrow> error + item" where
  "product_record c =
     and_then (text_or_empty (title_tag c)) (\<lambda>title.
     and_then (href_or_empty (title_tag c)) (\<lambda>link.
     and_then (text_or_empty (price_tag c)) (\<lambda>price.
     and_then (text_or_empty (desc_tag c)) (\<lambda>description.
     and_then (text_or_empty (reviews_tag c)) (\<lambda>reviews.
     Inr [(str ''title'', PyStr title), (str ''price'', PyStr price),
          (str ''description'', PyStr description), (str ''reviews'', PyStr reviews),
          (str ''url'', link)])))))"

text \<open>
  The loop over the containers, with the list built so far. After each append,
  \<open>if max_items and len(items) >= max_items: break\<close>; \<open>max_items\<close> is true when it is
  neither \<open>None\<close> nor 0.
\<close>

fun collect :: "int option \<Rightarrow> element list \<Rightarrow> item list \<Rightarrow> error + item list" where
  "collect max_items [] items = Inr items"
| "collect max_items (c # cs) items =
     (case product_record c of
        Inl e \<Rightarrow> Inl e
      | Inr it \<Rightarrow>
          (let items' = items @ [it] in
           if (case max_items of None \<Rightarrow> False
               | Some k \<Rightarrow> k \<noteq> 0 \<and> k \<le> int (length items'))
           then Inr items'
           else collect max_items cs items'))"

text \<open>
  \<open>parse_products(html, max_items)\<close>. The HTML parser is a parameter: it gives the root
  of the tree for every text, as lxml's recovering parser does.
\<close>

definition containers :: "(string \<Rightarrow> node) \<Rightarrow> string \<Rightarrow> element list" where
  "containers soup_of html = select ([], soup_of html) ''div.thumbnail''"

definition parse_products ::
  "(string \<Rightarrow> node) \<Rightarrow> string \<Rightarrow> int option \<Rightarrow> error + item list" where
  "parse_products soup_of html max_items = collect max_items (containers soup_of html) []"

section \<open>Logging and files\<close>

text \<open>
  A log record keeps the level, the message and its arguments, as \<open>logging\<close> does
  before it formats them.
\<close>

datatype level = INFO | WARNING

datatype log_arg = ArgInt int | ArgStr string

type_synonym log_record = "level \<times> string \<times> log_arg list"

text \<open>
  A text file is the text written to it and the encoding it was opened with. The state
  of the world is the files by path and the records logged so far. Failures of the
  operating system (a path that cannot be opened for writing) are outside the model.
\<close>

record text_file =
  encoding :: string
  content :: pystr

record world =
  files :: "string \<rightharpoonup> text_file"
  logged :: "log_record list"

definition log_to :: "level \<Rightarrow> string \<Rightarrow> log_arg list \<Rightarrow> world \<Rightarrow> world" where
  "log_to lv msg args w = w\<lparr>logged := logged w @ [(lv, msg, args)]\<rparr>"

text \<open>\<open>open(path, "w", newline="", encoding=enc)\<close>: the file is created or truncated.\<close>

definition open_w :: "string \<Rightarrow> string \<Rightarrow> world \<Rightarrow> world" where
  "open_w path enc w = w\<lparr>files := (files w)(path \<mapsto> \<lparr>encoding = enc, content = []\<rparr>)\<rparr>"

text \<open>
  What the UTF-8 codec can encode: the code points of Unicode but the surrogates,
  \<open>U+D800\<close> to \<open>U+DFFF\<close>.
\<close>

definition utf8_encodable :: "pystr \<Rightarrow> bool" where
  "utf8_encodable s =
     list_all (\<lambda>c. (0 \<le> c \<and> c < 0xD800) \<or> (0xDFFF < c \<and> c < 0x110000)) s"

text \<open>
  \<open>fh.write(s)\<close> on a file opened with \<open>newline=""\<close> in UTF-8, the only encoding the
  program opens a file in. The text is encoded when it is written: a text with a lone
  surrogate raises \<open>UnicodeEncodeError\<close> and nothing of it reaches the file; any other
  text is appended as it is. Writing to a file that is not open raises \<open>ValueError\<close>.
\<close>

definition fh_write :: "string \<Rightarrow> pystr \<Rightarrow> world \<Rightarrow> (error + unit) \<times> world" where
  "fh_write path s w = (case files w path of
       None \<Rightarrow> (Inl ValueError, w)
     | Some f \<Rightarrow>
         if utf8_encodable s
         then (Inr (), w\<lparr>files := (files w)(path \<mapsto> f\<lparr>content := content f @ s\<rparr>)\<rparr>)
         else (Inl UnicodeEncodeError, w))"


section \<open>The csv writer\<close>

text \<open>
  \<open>csv.writer\<close> with the default dialect \<open>excel\<close>: delimiter \<open>,\<close>, quote character
  \<open>"\<close>, doubled quotes, line terminator \<open>\r\n\<close>, minimal quoting, no escape character.
\<close>

definition DQ :: int where "DQ = 0x22"
definition COMMA :: int where "COMMA = 0x2C"
definition CR :: int where "CR = 0x0D"
definition LF :: int where "LF = 0x0A"

text \<open>A field is quoted when it holds the delimiter, the quote or a line terminator character.\<close>

definition special :: "int \<Rightarrow> bool" where
  "special c = (c = COMMA \<or> c = DQ \<or> c = CR \<or> c = LF)"

definition double_quotes :: "pystr \<Rightarrow> pystr" where
  "double_quotes s = concat (map (\<lambda>c. if c = DQ then [DQ, DQ] else [c]) s)"

definition csv_field :: "pystr \<Rightarrow> pystr" where
  "csv_field s = (if list_ex special s then DQ # double_quotes s @ [DQ] else s)"

text \<open>\<open>None\<close> is written as the empty field, a string as itself.\<close>

fun csv_value :: "pyval \<Rightarrow> pystr" where
  "csv_value PyNone = []"
| "csv_value (PyStr s) = s"

fun join :: "pystr \<Rightarrow> pystr list \<Rightarrow> pystr" where
  "join sep [] = []"
| "join sep [x] = x"
| "join sep (x # y # ys) = x @ sep @ join sep (y # ys)"

text \<open>
  \<open>writer.writerow(row)\<close>: the fields joined by the delimiter; a record of one empty
  field is written as a pair of quotes; then the line terminator.
\<close>

definition csv_row :: "pyval list \<Rightarrow> pystr" where
  "csv_row vs =
     (let body = join [COMMA] (map (\<lambda>v. csv_field (csv_value v)) vs)
      in (if vs \<noteq> [] \<and> body = [] then [DQ, DQ] else body) @ [CR, LF])"

text \<open>
  \<open>csv.DictWriter(fh, fieldnames)\<close>, with \<open>restval=""\<close> and \<open>extrasaction="raise"\<close>:
  a dict with a key that is not a field name raises \<open>ValueError\<close>; a missing key is
  written as \<open>restval\<close>.
\<close>

definition dict_to_list :: "pystr list \<Rightarrow> item \<Rightarrow> error + pyval list" where
  "dict_to_list fieldnames rowdict =
     (if filter (\<lambda>k. k \<notin> set fieldnames) (keys rowdict) \<noteq> [] then Inl ValueError
      else Inr (map (\<lambda>k. dict_get rowdict k (PyStr [])) fieldnames))"

definition writerow :: "pystr list \<Rightarrow> string \<Rightarrow> item \<Rightarrow> world \<Rightarrow> (error + unit) \<times> world" where
  "writerow fieldnames path rowdict w = (case dict_to_list fieldnames rowdict of
       Inl e \<Rightarrow> (Inl e, w)
     | Inr row \<Rightarrow> fh_write path (csv_row row) w)"

text \<open>\<open>writer.writeheader()\<close> writes the dict that maps each field name to itself.\<close>

definition writeheader :: "pystr list \<Rightarrow> string \<Rightarrow> world \<Rightarrow> (error + unit) \<times> world" where
  "writeheader fieldnames path w =
     writerow fieldnames path (zip fieldnames (map PyStr fieldnames)) w"

section \<open>The writer: \<open>save_csv\<close>\<close>

text \<open>\<open>for it in items: writer.writerow(it)\<close>; an exception leaves the loop.\<close>

fun write_items :: "pystr list \<Rightarrow> string \<Rightarrow> item list \<Rightarrow> world \<Rightarrow> (error + unit) \<times> world" where
  "write_items fieldnames path [] w = (Inr (), w)"
| "write_items fieldnames path (it # its) w = (case writerow fieldnames path it w of
       (Inl e, w') \<Rightarrow> (Inl e, w')
     | (Inr u, w') \<Rightarrow> write_items fieldnames path its w')"

text \<open>
  \<open>save_csv(items, filename)\<close>. What was written before an exception stays in the
  file, which the \<open>with\<close> statement closes.
\<close>

definition save_csv :: "item list \<Rightarrow> string \<Rightarrow> world \<Rightarrow> (error + unit) \<times> world" where
  "save_csv items filename w = (case items of
       [] \<Rightarrow> (Inr (), log_to WARNING ''No items to save'' [] w)
     | first # rest \<Rightarrow>
         (let fieldnames = keys first;
              w1 = open_w filename ''utf-8'' w
          in case writeheader fieldnames filename w1 of
               (Inl e, w2) \<Rightarrow> (Inl e, w2)
             | (Inr u, w2) \<Rightarrow>
                 (case write_items fieldnames filename items w2 of
                    (Inl e, w3) \<Rightarrow> (Inl e, w3)
                  | (Inr u, w3) \<Rightarrow>
                      (Inr (), log_to INFO ''Saved %d items to %s''
                         [ArgInt (int (length items)), ArgStr filename] w3))))"

section \<open>The csv reader\<close>


















section \<open>The fetcher: \<open>fetch\<close>\<close>

text \<open>
  A response is its status code and its decoded text. A session is what its \<open>get\<close>
  does for a URL and a timeout: it raises, or it returns the final response, after the
  redirects and retries of the library.
\<close>

record response =
  status_code :: int
  resp_text :: string

type_synonym session = "string \<Rightarrow> int \<Rightarrow> error + response"

text \<open>
  \<open>resp.raise_for_status()\<close> of \<open>requests\<close>: \<open>HTTPError\<close> for a status from 400 to 599,
  nothing otherwise.
\<close>

definition raise_for_status :: "response \<Rightarrow> error + unit" where
  "raise_for_status resp =
     (if 400 \<le> status_code resp \<and> status_code resp < 600
      then Inl (HTTPError (status_code resp)) else Inr ())"

definition fetch :: "string \<Rightarrow> session \<Rightarrow> int \<Rightarrow> world \<Rightarrow> (error + string) \<times> world" where
  "fetch url session timeout w =
     (let w1 = log_to INFO ''Fetching %s'' [ArgStr url] w
      in (and_then (session url timeout) (\<lambda>resp.
          and_then (raise_for_status resp) (\<lambda>u. Inr (resp_text resp))), w1))"

section \<open>Notions for the properties, and the examples\<close>

text \<open>A string with no white space at either end.\<close>

definition no_outer_space :: "pystr \<Rightarrow> bool" where
  "no_outer_space s = (case s of [] \<Rightarrow> True | c # cs \<Rightarrow> \<not> isspace c \<and> \<not> isspace (last s))"

text \<open>
  The container of the scenario, and the tree that \<open>BeautifulSoup\<close> builds for it:
  lxml puts a fragment inside an \<open>html\<close> and a \<open>body\<close> element.
\<close>

definition widget_html :: string where
  \<open>widget_html = ''<div class="thumbnail"><a class="title" href="/x">Widget</a><h4 class="price">$9.99</h4><p class="description">A widget</p><div class="ratings"><p class="pull-right">12 reviews</p></div></div>''\<close>

definition text_node :: "string \<Rightarrow> node" where
  "text_node s = NavigableString NavigableStringC (str s)"

definition widget_div :: node where
  "widget_div = Tag ''div'' [''thumbnail''] []
     [Tag ''a'' [''title''] [(''href'', str ''/x'')] [text_node ''Widget''],
      Tag ''h4'' [''price''] [] [text_node ''$9.99''],
      Tag ''p'' [''description''] [] [text_node ''A widget''],
      Tag ''div'' [''ratings''] []
        [Tag ''p'' [''pull-right''] [] [text_node ''12 reviews'']]]"

definition document :: "node list \<Rightarrow> node" where
  "document body = Tag ''[document]'' [] [] [Tag ''html'' [] [] [Tag ''body'' [] [] body]]"

definition widget_soup :: node where
  "widget_soup = document [widget_div]"

definition widget_record :: item where
  "widget_record = [(str ''title'', PyStr (str ''Widget'')), (str ''price'', PyStr (str ''$9.99'')),
     (str ''description'', PyStr (str ''A widget'')), (str ''reviews'', PyStr (str ''12 reviews'')),
     (str ''url'', PyStr (str ''/x''))]"

text \<open>
  A page of three containers: the one of the scenario, one that holds only an anchor
  whose \<open>href\<close> and text have blanks around them, and one that holds only an anchor
  with no \<open>href\<close>.
\<close>

definition shop_html :: string where
  \<open>shop_html = ''<div class="thumbnail"><a class="title" href="/x">Widget</a><h4 class="price">$9.99</h4><p class="description">A widget</p><div class="ratings"><p class="pull-right">12 reviews</p></div></div><div class="thumbnail"><a href=" /y "> Gadget </a></div><div class="thumbnail"><a>Gizmo</a></div>''\<close>

definition gadget_div :: node where
  "gadget_div = Tag ''div'' [''thumbnail''] []
     [Tag ''a'' [] [(''href'', str '' /y '')] [text_node '' Gadget '']]"

definition gizmo_div :: node where
  "gizmo_div = Tag ''div'' [''thumbnail''] [] [Tag ''a'' [] [] [text_node ''Gizmo'']]"

definition shop_soup :: node where
  "shop_soup = document [widget_div, gadget_div, gizmo_div]"

definition gadget_record :: item where
  "gadget_record = [(str ''title'', PyStr (str ''Gadget'')), (str ''price'', PyStr []),
     (str ''description'', PyStr []), (str ''reviews'', PyStr []), (str ''url'', PyStr (str '' /y ''))]"

definition gizmo_record :: item where
  "gizmo_record = [(str ''title'', PyStr (str ''Gizmo'')), (str ''price'', PyStr []),
     (str ''description'', PyStr []), (str ''reviews'', PyStr []), (str ''url'', PyNone)]"

definition shop_parents :: "node list" where
  "shop_parents = [Tag ''body'' [] [] [widget_div, gadget_div, gizmo_div],
     Tag ''html'' [] [] [Tag ''body'' [] [] [widget_div, gadget_div, gizmo_div]], shop_soup]"

text \<open>A page with no container, and a page whose one container is empty.\<close>

definition plain_html :: string where
  "plain_html = ''<p>Nothing here</p>''"

definition plain_soup :: node where
  "plain_soup = document [Tag ''p'' [] [] [text_node ''Nothing here'']]"

definition bare_html :: string where
  \<open>bare_html = ''<div class="thumbnail"></div>''\<close>

definition bare_div :: node where
  "bare_div = Tag ''div'' [''thumbnail''] [] []"

definition bare_soup :: node where
  "bare_soup = document [bare_div]"

definition bare_record :: item where
  "bare_record = [(str ''title'', PyStr []), (str ''price'', PyStr []), (str ''description'', PyStr []),
     (str ''reviews'', PyStr []), (str ''url'', PyStr [])]"

text \<open>
  A container whose price element holds a \<open>script\<close> element and a comment besides its
  text: \<open><p class="price">$5<script>x()</script><!-- old --></p>\<close>.
\<close>

definition scripted_price :: node where
  "scripted_price = Tag ''p'' [''price''] []
     [text_node ''$5'',
      Tag ''script'' [] [] [NavigableString ScriptC (str ''x()'')],
      NavigableString CommentC (str '' old '')]"

definition gadget_anchor :: element where
  "gadget_anchor = (gadget_div # shop_parents,
     Tag ''a'' [] [(''href'', str '' /y '')] [text_node '' Gadget ''])"








text \<open>The world after a text has been appended to a file.\<close>

definition appended :: "string \<Rightarrow> pystr \<Rightarrow> world \<Rightarrow> world" where
  "appended path s w = (case files w path of
       None \<Rightarrow> w
     | Some f \<Rightarrow> w\<lparr>files := (files w)(path \<mapsto> f\<lparr>content := content f @ s\<rparr>)\<rparr>)"



definition empty_world :: world where
  "empty_world = \<lparr>files = Map.empty, logged = []\<rparr>"






text \<open>
  Sessions whose \<open>get\<close> returns a response with the status 304, 404, 503 and 200, and a
  session whose \<open>get\<close> raises \<open>RetryError\<close>: what the session of \<open>create_session\<close> does
  when the server answers 503 to the request and to every retry, since 503 is in the
  \<open>status_forcelist\<close> of its \<open>Retry\<close>.
\<close>

definition cached_session :: session where
  "cached_session url timeout = Inr \<lparr>status_code = 304, resp_text = ''cached''\<rparr>"

definition missing_session :: session where
  "missing_session url timeout = Inr \<lparr>status_code = 404, resp_text = ''Not Found''\<rparr>"

definition unavailable_session :: session where
  "unavailable_session url timeout = Inr \<lparr>status_code = 503, resp_text = ''Busy''\<rparr>"

definition ok_session :: session where
  "ok_session url timeout = Inr \<lparr>status_code = 200, resp_text = ''<html></html>''\<rparr>"

definition exhausted_session :: session where
  "exhausted_session url timeout = Inl RetryError"

definition test_url :: string where
  "test_url = ''https://webscraper.io/test-sites/e-commerce/allinone''"

section \<open>Lemmas\<close>

subsection \<open>The loop of the parser\<close>

lemma str_eq_iff [simp]: "str a = str b \<longleftrightarrow> a = b"
proof -
  have "inj (of_char :: char \<Rightarrow> int)"
    by (rule injI) simp
  then show ?thesis
    by (simp add: str_def inj_map_eq_map)
qed

lemma length_str [simp]: "length (str s) = length s"
  by (simp add: str_def)

lemma and_then_Inr [simp]: "and_then (Inr x) f = f x"
  by (simp add: and_then_def)

lemma and_then_Inl [simp]: "and_then (Inl e) f = Inl e"
  by (simp add: and_then_def)

lemma matches_is_Tag: "matches sel e \<Longrightarrow> \<exists>n cl at ch. snd e = Tag n cl at ch"
  by (cases "snd e") (auto simp: matches_def split: list.splits)

lemma select_one_is_Tag:
  assumes "select_one c s = Some e"
  shows "\<exists>n cl at ch. snd e = Tag n cl at ch"
proof -
  from assms have "e \<in> set (select c s)"
    by (auto simp: select_one_def split: list.splits)
  then have "matches (selector_of s) e"
    by (simp add: select_def)
  then show ?thesis by (rule matches_is_Tag)
qed

lemma py_or_Some: "py_or a b = Some e \<Longrightarrow> a = Some e \<or> b = Some e"
  by (auto simp: py_or_def split: option.splits)

lemma title_tag_is_Tag: "title_tag c = Some e \<Longrightarrow> \<exists>n cl at ch. snd e = Tag n cl at ch"
  unfolding title_tag_def by (blast dest: py_or_Some select_one_is_Tag)

lemma text_or_empty_total: "\<exists>s. text_or_empty t = Inr s"
  by (cases t) (simp_all add: text_or_empty_def get_text_def)

lemma href_or_empty_total: "\<exists>v. href_or_empty (title_tag c) = Inr v"
proof (cases "title_tag c")
  case None
  then show ?thesis by (simp add: href_or_empty_def)
next
  case (Some e)
  then obtain n cl at ch where "snd e = Tag n cl at ch"
    using title_tag_is_Tag by blast
  then have "e = (fst e, Tag n cl at ch)" by (cases e) simp
  with Some show ?thesis
    by (cases e) (simp add: href_or_empty_def tag_get_def)
qed

lemma product_record_total: "\<exists>it. product_record c = Inr it"
proof -
  obtain title where 1: "text_or_empty (title_tag c) = Inr title"
    using text_or_empty_total by blast
  obtain link where 2: "href_or_empty (title_tag c) = Inr link"
    using href_or_empty_total by blast
  obtain price where 3: "text_or_empty (price_tag c) = Inr price"
    using text_or_empty_total by blast
  obtain description where 4: "text_or_empty (desc_tag c) = Inr description"
    using text_or_empty_total by blast
  obtain reviews where 5: "text_or_empty (reviews_tag c) = Inr reviews"
    using text_or_empty_total by blast
  show ?thesis by (simp add: product_record_def 1 2 3 4 5)
qed

text \<open>The loop returns the list so far and the records of a prefix of the containers.\<close>

lemma collect_shape:
  "\<exists>its. collect m cs acc = Inr (acc @ its) \<and> length its \<le> length cs \<and>
     map product_record (take (length its) cs) = map Inr its"
proof (induction cs arbitrary: acc)
  case Nil
  then show ?case by simp
next
  case (Cons c cs)
  obtain it where it: "product_record c = Inr it"
    using product_record_total by blast
  show ?case
  proof (cases "case m of None \<Rightarrow> False | Some k \<Rightarrow> k \<noteq> 0 \<and> k \<le> int (length (acc @ [it]))")
    case True
    then have "collect m (c # cs) acc = Inr (acc @ [it])"
      by (simp add: it Let_def)
    then show ?thesis by (intro exI [of _ "[it]"]) (simp add: it)
  next
    case False
    then have eq: "collect m (c # cs) acc = collect m cs (acc @ [it])"
      by (simp add: it Let_def)
    from Cons.IH [of "acc @ [it]"] obtain its where
      its: "collect m cs (acc @ [it]) = Inr ((acc @ [it]) @ its)" "length its \<le> length cs"
        "map product_record (take (length its) cs) = map Inr its"
      by blast
    show ?thesis
      by (intro exI [of _ "it # its"]) (simp add: eq its it del: collect.simps)
  qed
qed

text \<open>With a positive cap the loop reads as many containers as the cap leaves room for.\<close>

lemma collect_cap:
  assumes "0 < k" "int (length acc) < k"
  shows "\<exists>its. collect (Some k) cs acc = Inr (acc @ its) \<and>
     length its = min (nat k - length acc) (length cs) \<and>
     map product_record (take (nat k - length acc) cs) = map Inr its"
  using assms(2)
proof (induction cs arbitrary: acc)
  case Nil
  then show ?case by simp
next
  case (Cons c cs)
  obtain it where it: "product_record c = Inr it"
    using product_record_total by blast
  show ?case
  proof (cases "k \<le> int (length acc) + 1")
    case True
    with Cons.prems have k: "nat k - length acc = 1" by linarith
    from True assms(1) have "collect (Some k) (c # cs) acc = Inr (acc @ [it])"
      by (simp add: it Let_def)
    then show ?thesis by (intro exI [of _ "[it]"]) (simp add: it k)
  next
    case False
    then have eq: "collect (Some k) (c # cs) acc = collect (Some k) cs (acc @ [it])"
      by (simp add: it Let_def)
    from False have lt: "int (length (acc @ [it])) < k" by simp
    from Cons.IH [OF lt] obtain its where
      its: "collect (Some k) cs (acc @ [it]) = Inr ((acc @ [it]) @ its)"
        "length its = min (nat k - Suc (length acc)) (length cs)"
        "map product_record (take (nat k - Suc (length acc)) cs) = map Inr its"
      by auto
    from False have k: "nat k - length acc = Suc (nat k - Suc (length acc))"
      by simp
    show ?thesis
      by (intro exI [of _ "it # its"]) (simp add: eq its it k del: collect.simps)
  qed
qed

subsection \<open>The fields of a record\<close>

lemma no_outer_space_iff: "no_outer_space s \<longleftrightarrow> s = [] \<or> (\<not> isspace (hd s) \<and> \<not> isspace (last s))"
  by (cases s) (simp_all add: no_outer_space_def)

lemma strip_prefix: "\<exists>n. strip s = take n (dropWhile isspace s)"
proof -
  let ?t = "dropWhile isspace s"
  have "dropWhile isspace (rev ?t) = drop (length (takeWhile isspace (rev ?t))) (rev ?t)"
    by (rule dropWhile_eq_drop)
  then have "strip s = take (length ?t - length (takeWhile isspace (rev ?t))) ?t"
    by (simp add: strip_def rev_drop)
  then show ?thesis by blast
qed

lemma no_outer_space_strip: "no_outer_space (strip s)"
proof (cases "strip s = []")
  case True
  then show ?thesis by (simp add: no_outer_space_iff)
next
  case False
  let ?t = "dropWhile isspace s"
  obtain n where n: "strip s = take n ?t" using strip_prefix by blast
  with False have "?t \<noteq> []" "n \<noteq> 0" by auto
  then have "hd (strip s) = hd ?t" by (simp add: n hd_take)
  moreover have "\<not> isspace (hd ?t)"
    using \<open>?t \<noteq> []\<close> by (rule hd_dropWhile)
  moreover have "\<not> isspace (last (strip s))"
  proof -
    from False have ne: "dropWhile isspace (rev ?t) \<noteq> []" by (simp add: strip_def)
    have "last (strip s) = hd (dropWhile isspace (rev ?t))"
      using ne by (simp add: strip_def last_rev)
    with hd_dropWhile [OF ne] show ?thesis by simp
  qed
  ultimately show ?thesis by (simp add: no_outer_space_iff)
qed

lemma no_outer_space_concat:
  assumes "\<And>s. s \<in> set xs \<Longrightarrow> s \<noteq> [] \<and> no_outer_space s"
  shows "no_outer_space (concat xs)"
  using assms
proof (induction xs)
  case Nil
  then show ?case by (simp add: no_outer_space_def)
next
  case (Cons x xs)
  then have x: "x \<noteq> []" "no_outer_space x" and IH: "no_outer_space (concat xs)"
    by auto
  show ?case
  proof (cases "concat xs = []")
    case True
    then have "x @ concat xs = x" by simp
    with x show ?thesis by (simp del: concat_eq_Nil_conv)
  next
    case False
    with x IH show ?thesis by (simp add: no_outer_space_iff del: concat_eq_Nil_conv)
  qed
qed

lemma no_outer_space_text:
  assumes "text_or_empty t = Inr s"
  shows "no_outer_space s"
proof (cases t)
  case None
  with assms show ?thesis by (simp add: text_or_empty_def no_outer_space_def)
next
  case (Some e)
  let ?xs = "map (\<lambda>(k, s). strip s)
    (filter (\<lambda>(k, s). k \<in> set (interesting_string_types (snd e))) (strings (snd e)))"
  from Some assms have "s = concat (filter (\<lambda>s. s \<noteq> []) ?xs)"
    by (simp add: text_or_empty_def get_text_def)
  moreover have "no_outer_space (concat (filter (\<lambda>s. s \<noteq> []) ?xs))"
    by (rule no_outer_space_concat) (auto simp: no_outer_space_strip)
  ultimately show ?thesis by simp
qed

lemma parse_products_records:
  assumes "parse_products soup_of html m = Inr items"
  shows "length items \<le> length (containers soup_of html) \<and>
     (\<forall>i<length items. product_record (containers soup_of html ! i) = Inr (items ! i))"
proof -
  obtain its where its: "collect m (containers soup_of html) [] = Inr ([] @ its)"
      "length its \<le> length (containers soup_of html)"
      "map product_record (take (length its) (containers soup_of html)) = map Inr its"
    using collect_shape by blast
  with assms have eq: "items = its" by (simp add: parse_products_def)
  have "product_record (containers soup_of html ! i) = Inr (its ! i)" if "i < length its" for i
  proof -
    have "map product_record (take (length its) (containers soup_of html)) ! i = map Inr its ! i"
      by (simp only: its(3))
    with that its(2) show ?thesis by simp
  qed
  with its(2) eq show ?thesis by simp
qed

lemma product_record_fields:
  assumes "product_record c = Inr it"
  shows "\<exists>title link price description reviews.
     text_or_empty (title_tag c) = Inr title \<and> href_or_empty (title_tag c) = Inr link \<and>
     text_or_empty (price_tag c) = Inr price \<and> text_or_empty (desc_tag c) = Inr description \<and>
     text_or_empty (reviews_tag c) = Inr reviews \<and>
     it = [(str ''title'', PyStr title), (str ''price'', PyStr price),
          (str ''description'', PyStr description), (str ''reviews'', PyStr reviews),
          (str ''url'', link)]"
proof -
  obtain title where 1: "text_or_empty (title_tag c) = Inr title"
    using text_or_empty_total by blast
  obtain link where 2: "href_or_empty (title_tag c) = Inr link"
    using href_or_empty_total by blast
  obtain price where 3: "text_or_empty (price_tag c) = Inr price"
    using text_or_empty_total by blast
  obtain description where 4: "text_or_empty (desc_tag c) = Inr description"
    using text_or_empty_total by blast
  obtain reviews where 5: "text_or_empty (reviews_tag c) = Inr reviews"
    using text_or_empty_total by blast
  from assms show ?thesis by (simp add: product_record_def 1 2 3 4 5)
qed

subsection \<open>The examples, evaluated\<close>

lemma widget_containers: "select ([], widget_soup) ''div.thumbnail'' =
  [([Tag ''body'' [] [] [widget_div], Tag ''html'' [] [] [Tag ''body'' [] [] [widget_div]], widget_soup], widget_div)]"
  by code_simp

lemma widget_product: "product_record ([Tag ''body'' [] [] [widget_div], Tag ''html'' [] [] [Tag ''body'' [] [] [widget_div]], widget_soup], widget_div)
   = Inr widget_record"
  by code_simp

lemma shop_containers: "containers (\<lambda>html. shop_soup) shop_html =
  [(shop_parents, widget_div), (shop_parents, gadget_div), (shop_parents, gizmo_div)]"
  by code_simp

lemma shop_all: "parse_products (\<lambda>html. shop_soup) shop_html None = Inr [widget_record, gadget_record, gizmo_record]"
  by code_simp

lemma shop_two: "parse_products (\<lambda>html. shop_soup) shop_html (Some 2) = Inr [widget_record, gadget_record]"
  by code_simp

lemma shop_products: "product_record (shop_parents, widget_div) = Inr widget_record"
  "product_record (shop_parents, gadget_div) = Inr gadget_record"
  "product_record (shop_parents, gizmo_div) = Inr gizmo_record"
  by code_simp+

lemma text_or_empty_None: "text_or_empty None = Inr []"
  by (simp add: text_or_empty_def)

lemma href_or_empty_None: "href_or_empty None = Inr (PyStr [])"
  by (simp add: href_or_empty_def)

lemma href_or_empty_Tag:
  "href_or_empty (Some (ps, Tag n cl at ch)) =
     Inr (case map_of at ''href'' of None \<Rightarrow> PyNone | Some v \<Rightarrow> PyStr v)"
  by (simp add: href_or_empty_def tag_get_def)

lemma scripted_price_text:
  "get_text (Some ([], scripted_price)) = Inr (str ''$5'')"
  "get_text (Some ([scripted_price], Tag ''script'' [] [] [NavigableString ScriptC (str ''x()'')])) =
     Inr (str ''x()'')"
  by code_simp+

lemma plain_containers: "containers (\<lambda>html. plain_soup) plain_html = []"
  by code_simp

lemma bare_containers:
  "containers (\<lambda>html. bare_soup) bare_html =
     [([Tag ''body'' [] [] [bare_div], Tag ''html'' [] [] [Tag ''body'' [] [] [bare_div]],
        bare_soup], bare_div)]"
  by code_simp

lemma bare_tags:
  "title_tag (containers (\<lambda>html. bare_soup) bare_html ! 0) = None"
  "price_tag (containers (\<lambda>html. bare_soup) bare_html ! 0) = None"
  "desc_tag (containers (\<lambda>html. bare_soup) bare_html ! 0) = None"
  "reviews_tag (containers (\<lambda>html. bare_soup) bare_html ! 0) = None"
  by code_simp+

lemma bare_parse: "parse_products (\<lambda>html. bare_soup) bare_html (Some 0) = Inr [bare_record]"
  by code_simp

lemma gadget_title_tag:
  "title_tag (containers (\<lambda>html. shop_soup) shop_html ! 1) = Some gadget_anchor"
  by code_simp

lemma gadget_selects:
  "select_one (containers (\<lambda>html. shop_soup) shop_html ! 1) ''a.title'' = None"
  "select_one (containers (\<lambda>html. shop_soup) shop_html ! 1) ''a'' = Some gadget_anchor"
  "select_one (containers (\<lambda>html. shop_soup) shop_html ! 1) ''h4.price'' = None"
  "select_one (containers (\<lambda>html. shop_soup) shop_html ! 1) ''.price'' = None"
  "select_one (containers (\<lambda>html. shop_soup) shop_html ! 1) ''p.description'' = None"
  "select_one (containers (\<lambda>html. shop_soup) shop_html ! 1) ''p'' = None"
  "select_one (containers (\<lambda>html. shop_soup) shop_html ! 1) ''div.ratings p.pull-right'' = None"
  "select_one (containers (\<lambda>html. shop_soup) shop_html ! 1) ''.ratings'' = None"
  by code_simp+

lemma gadget_anchor_values:
  "get_text (Some gadget_anchor) = Inr (str ''Gadget'')"
  "tag_get (Some gadget_anchor) ''href'' = Inr (PyStr (str '' /y ''))"
  by code_simp+

subsection \<open>The reader on a stream\<close>






subsection \<open>The reader on what the writer wrote\<close>

lemma chars_distinct [simp]:
  "DQ \<noteq> COMMA" "DQ \<noteq> CR" "DQ \<noteq> LF" "COMMA \<noteq> DQ" "COMMA \<noteq> CR" "COMMA \<noteq> LF"
  "CR \<noteq> DQ" "CR \<noteq> COMMA" "CR \<noteq> LF" "LF \<noteq> DQ" "LF \<noteq> COMMA" "LF \<noteq> CR"
  by (simp_all add: DQ_def COMMA_def CR_def LF_def)





























subsection \<open>What \<open>save_csv\<close> writes\<close>

lemma utf8_encodable_append [simp]:
  "utf8_encodable (a @ b) \<longleftrightarrow> utf8_encodable a \<and> utf8_encodable b"
  by (simp add: utf8_encodable_def)

lemma utf8_encodable_Cons:
  "utf8_encodable (c # s) \<longleftrightarrow> utf8_encodable [c] \<and> utf8_encodable s"
  by (simp add: utf8_encodable_def)

lemma utf8_encodable_marks [simp]:
  "utf8_encodable []"
  "utf8_encodable (DQ # s) \<longleftrightarrow> utf8_encodable s"
  "utf8_encodable (COMMA # s) \<longleftrightarrow> utf8_encodable s"
  "utf8_encodable (CR # s) \<longleftrightarrow> utf8_encodable s"
  "utf8_encodable (LF # s) \<longleftrightarrow> utf8_encodable s"
  by (simp_all add: utf8_encodable_def DQ_def COMMA_def CR_def LF_def)

lemma utf8_encodable_str [simp]: "utf8_encodable (str s)"
proof -
  have "0 \<le> (of_char c :: int) \<and> (of_char c :: int) < 0xD800" for c :: char
  proof -
    have "0 \<le> (of_char c :: int) mod 256" by (rule pos_mod_sign) simp
    moreover have "(of_char c :: int) mod 256 < 256" by (rule pos_mod_bound) simp
    ultimately have "0 \<le> (of_char c :: int) \<and> (of_char c :: int) < 256"
      by (simp only: of_char_mod_256)
    then show ?thesis by simp
  qed
  then show ?thesis
    by (simp add: utf8_encodable_def str_def list_all_iff)
qed

lemma utf8_encodable_double_quotes [simp]:
  "utf8_encodable (double_quotes s) \<longleftrightarrow> utf8_encodable s"
proof (induction s)
  case Nil
  then show ?case by (simp add: double_quotes_def)
next
  case (Cons c s)
  have "double_quotes (c # s) = (if c = DQ then [DQ, DQ] else [c]) @ double_quotes s"
    by (simp add: double_quotes_def)
  with Cons show ?case
    using utf8_encodable_Cons [of c s] by auto
qed

lemma utf8_encodable_csv_field [simp]:
  "utf8_encodable (csv_field s) \<longleftrightarrow> utf8_encodable s"
  by (simp add: csv_field_def)









lemma logged_appended [simp]: "logged (appended path s w) = logged w"
  by (cases "files w path") (simp_all add: appended_def)







subsection \<open>Writing and reading back\<close>






subsection \<open>The examples of files, evaluated\<close>

lemma special_simps [simp]:
  "special COMMA" "special DQ" "special CR" "special LF"
  by (simp_all add: special_def)





















section \<open>The claims\<close>

subsection \<open>Claim C1\<close>

text \<open>
  Claim C1. For every HTML text and every cap \<open>k > 0\<close>, \<open>parse_products\<close> returns
  normally, the length of the list is the minimum of \<open>k\<close> and the number of elements
  that match \<open>div.thumbnail\<close>, and its elements are the records of the first \<open>k\<close>
  containers, in document order.
\<close>

theorem parse_products_cap:
  assumes "0 < k"
  shows "\<exists>items. parse_products soup_of html (Some k) = Inr items \<and>
     length items = min (nat k) (length (containers soup_of html)) \<and>
     map product_record (take (nat k) (containers soup_of html)) = map Inr items"
  using collect_cap [OF assms, of "[]" "containers soup_of html"] assms
  by (simp add: parse_products_def)

text \<open>
  Witness for C1: a page of three containers with the cap 2.
\<close>

theorem parse_products_cap_witness:
  "0 < (2::int) \<and> parse_products (\<lambda>html. shop_soup) shop_html (Some 2) = Inr [widget_record, gadget_record]
   \<and> length [widget_record, gadget_record] = min (nat 2) (length (containers (\<lambda>html. shop_soup) shop_html))
   \<and> map product_record (take (nat 2) (containers (\<lambda>html. shop_soup) shop_html)) = map Inr [widget_record, gadget_record]"
  using parse_products_cap [of 2 "\<lambda>html. shop_soup" shop_html]
  by (auto simp: shop_two)

subsection \<open>Claim C2\<close>

text \<open>
  Claim C2, as amended. Every record that \<open>parse_products\<close> returns has the five
  keys in their order; its title, price, description and reviews are strings with no
  white space at either end; its url is the empty string when the container has no
  title element, and the \<open>href\<close> attribute of the title element, as it is written in
  the page, when the element has one. Nothing is stated for a title element that has
  no \<open>href\<close> attribute.
\<close>

theorem parse_products_fields:
  assumes "parse_products soup_of html max_items = Inr items" and "i < length items"
  shows "\<exists>title price description reviews url.
     items ! i = [(str ''title'', PyStr title), (str ''price'', PyStr price),
        (str ''description'', PyStr description), (str ''reviews'', PyStr reviews), (str ''url'', url)] \<and>
     no_outer_space title \<and> no_outer_space price \<and>
     no_outer_space description \<and> no_outer_space reviews \<and>
     (title_tag (containers soup_of html ! i) = None \<longrightarrow> url = PyStr []) \<and>
     (\<forall>ps n cl at ch v.
        title_tag (containers soup_of html ! i) = Some (ps, Tag n cl at ch) \<and>
        map_of at ''href'' = Some v \<longrightarrow> url = PyStr v)"
proof -
  from parse_products_records [OF assms(1)] assms(2)
  have "product_record (containers soup_of html ! i) = Inr (items ! i)"
    by blast
  from product_record_fields [OF this] obtain title link price description reviews where
    f: "text_or_empty (title_tag (containers soup_of html ! i)) = Inr title"
       "href_or_empty (title_tag (containers soup_of html ! i)) = Inr link"
       "text_or_empty (price_tag (containers soup_of html ! i)) = Inr price"
       "text_or_empty (desc_tag (containers soup_of html ! i)) = Inr description"
       "text_or_empty (reviews_tag (containers soup_of html ! i)) = Inr reviews"
       "items ! i = [(str ''title'', PyStr title), (str ''price'', PyStr price),
          (str ''description'', PyStr description), (str ''reviews'', PyStr reviews), (str ''url'', link)]"
    by blast
  have u1: "title_tag (containers soup_of html ! i) = None \<longrightarrow> link = PyStr []"
    using f(2) by (auto simp: href_or_empty_None)
  have u2: "\<forall>ps n cl at ch v.
        title_tag (containers soup_of html ! i) = Some (ps, Tag n cl at ch) \<and>
        map_of at ''href'' = Some v \<longrightarrow> link = PyStr v"
    using f(2) by (auto simp: href_or_empty_Tag)
  have s: "no_outer_space title" "no_outer_space price" "no_outer_space description"
      "no_outer_space reviews"
    using f(1,3,4,5) by (blast intro: no_outer_space_text)+
  show ?thesis
    by (rule exI [of _ title], rule exI [of _ price], rule exI [of _ description],
        rule exI [of _ reviews], rule exI [of _ link]) (use f(6) u1 u2 s in blast)
qed

text \<open>
  Witness for C2, as amended: the second record of the page of three containers.
\<close>

theorem parse_products_fields_witness:
  "parse_products (\<lambda>html. shop_soup) shop_html None =
     Inr [widget_record, gadget_record, gizmo_record] \<and>
   (1::nat) < length [widget_record, gadget_record, gizmo_record] \<and>
   title_tag (containers (\<lambda>html. shop_soup) shop_html ! 1) = Some gadget_anchor \<and>
   (\<exists>title price description reviews.
      [widget_record, gadget_record, gizmo_record] ! 1 =
        [(str ''title'', PyStr title), (str ''price'', PyStr price),
         (str ''description'', PyStr description), (str ''reviews'', PyStr reviews),
         (str ''url'', PyStr (str '' /y ''))] \<and>
      no_outer_space title \<and> no_outer_space price \<and>
      no_outer_space description \<and> no_outer_space reviews)"
proof -
  have l: "(1::nat) < length [widget_record, gadget_record, gizmo_record]" by simp
  from parse_products_fields [OF shop_all l]
  obtain title price description reviews url where
    r: "[widget_record, gadget_record, gizmo_record] ! 1 =
        [(str ''title'', PyStr title), (str ''price'', PyStr price),
         (str ''description'', PyStr description), (str ''reviews'', PyStr reviews), (str ''url'', url)]"
      "no_outer_space title" "no_outer_space price" "no_outer_space description"
      "no_outer_space reviews"
    and u: "\<forall>ps n cl at ch v.
        title_tag (containers (\<lambda>html. shop_soup) shop_html ! 1) = Some (ps, Tag n cl at ch) \<and>
        map_of at ''href'' = Some v \<longrightarrow> url = PyStr v"
    by blast
  from u gadget_title_tag have "url = PyStr (str '' /y '')"
    by (auto simp: gadget_anchor_def)
  with r have "\<exists>title price description reviews.
      [widget_record, gadget_record, gizmo_record] ! 1 =
        [(str ''title'', PyStr title), (str ''price'', PyStr price),
         (str ''description'', PyStr description), (str ''reviews'', PyStr reviews),
         (str ''url'', PyStr (str '' /y ''))] \<and>
      no_outer_space title \<and> no_outer_space price \<and>
      no_outer_space description \<and> no_outer_space reviews"
    by blast
  with shop_all l gadget_title_tag show ?thesis
    by blast
qed

text \<open>
  Counterexample to C2 as stated: on the page of three containers, the url of the second
  record is the \<open>href\<close> attribute with the blanks around it, and the url of the third,
  whose anchor has no \<open>href\<close> attribute, is \<open>None\<close>.
\<close>

theorem parse_products_fields_counterexample:
  "parse_products (\<lambda>html. shop_soup) shop_html None =
     Inr [widget_record, gadget_record, gizmo_record] \<and>
   map_of gadget_record (str ''url'') = Some (PyStr (str '' /y '')) \<and>
   \<not> no_outer_space (str '' /y '') \<and>
   map_of gizmo_record (str ''url'') = Some PyNone"
  by (simp add: shop_all)
    (simp add: gadget_record_def gizmo_record_def no_outer_space_def isspace_def str_def)

subsection \<open>Claim C3\<close>

text \<open>
  Claim C3. For every HTML text and every value of \<open>max_items\<close>, \<open>parse_products\<close>
  returns normally. It returns the empty list when no element matches \<open>div.thumbnail\<close>,
  and in every record a field whose element is absent from the container is the empty
  string.
\<close>

theorem parse_products_never_raises:
  "\<exists>items. parse_products soup_of html max_items = Inr items \<and>
     length items \<le> length (containers soup_of html) \<and>
     (containers soup_of html = [] \<longrightarrow> items = []) \<and>
     (\<forall>i<length items.
        (title_tag (containers soup_of html ! i) = None \<longrightarrow>
           map_of (items ! i) (str ''title'') = Some (PyStr []) \<and>
           map_of (items ! i) (str ''url'') = Some (PyStr [])) \<and>
        (price_tag (containers soup_of html ! i) = None \<longrightarrow>
           map_of (items ! i) (str ''price'') = Some (PyStr [])) \<and>
        (desc_tag (containers soup_of html ! i) = None \<longrightarrow>
           map_of (items ! i) (str ''description'') = Some (PyStr [])) \<and>
        (reviews_tag (containers soup_of html ! i) = None \<longrightarrow>
           map_of (items ! i) (str ''reviews'') = Some (PyStr [])))"
proof -
  obtain its where its: "collect max_items (containers soup_of html) [] = Inr ([] @ its)"
    using collect_shape by blast
  then have p: "parse_products soup_of html max_items = Inr its"
    by (simp add: parse_products_def)
  note r = parse_products_records [OF p]
  have "(title_tag (containers soup_of html ! i) = None \<longrightarrow>
           map_of (its ! i) (str ''title'') = Some (PyStr []) \<and>
           map_of (its ! i) (str ''url'') = Some (PyStr [])) \<and>
        (price_tag (containers soup_of html ! i) = None \<longrightarrow>
           map_of (its ! i) (str ''price'') = Some (PyStr [])) \<and>
        (desc_tag (containers soup_of html ! i) = None \<longrightarrow>
           map_of (its ! i) (str ''description'') = Some (PyStr [])) \<and>
        (reviews_tag (containers soup_of html ! i) = None \<longrightarrow>
           map_of (its ! i) (str ''reviews'') = Some (PyStr []))" if "i < length its" for i
  proof -
    from r that have "product_record (containers soup_of html ! i) = Inr (its ! i)"
      by blast
    from product_record_fields [OF this] show ?thesis
      by (auto simp: text_or_empty_None href_or_empty_None)
  qed
  with p r show ?thesis by auto
qed

text \<open>
  Witness for C3: a page with no container, and a page whose one container is empty.
\<close>

theorem parse_products_never_raises_witness:
  "containers (\<lambda>html. plain_soup) plain_html = [] \<and>
   parse_products (\<lambda>html. plain_soup) plain_html None = Inr [] \<and>
   title_tag (containers (\<lambda>html. bare_soup) bare_html ! 0) = None \<and>
   price_tag (containers (\<lambda>html. bare_soup) bare_html ! 0) = None \<and>
   desc_tag (containers (\<lambda>html. bare_soup) bare_html ! 0) = None \<and>
   reviews_tag (containers (\<lambda>html. bare_soup) bare_html ! 0) = None \<and>
   parse_products (\<lambda>html. bare_soup) bare_html (Some 0) = Inr [bare_record] \<and>
   map_of bare_record (str ''title'') = Some (PyStr []) \<and>
   map_of bare_record (str ''url'') = Some (PyStr []) \<and>
   map_of bare_record (str ''price'') = Some (PyStr []) \<and>
   map_of bare_record (str ''description'') = Some (PyStr []) \<and>
   map_of bare_record (str ''reviews'') = Some (PyStr [])"
proof -
  from parse_products_never_raises [of "\<lambda>html. plain_soup" plain_html None]
  have 1: "parse_products (\<lambda>html. plain_soup) plain_html None = Inr []"
    using plain_containers by auto
  from parse_products_never_raises [of "\<lambda>html. bare_soup" bare_html "Some 0"]
  have 2: "map_of bare_record (str ''title'') = Some (PyStr []) \<and>
     map_of bare_record (str ''url'') = Some (PyStr []) \<and>
     map_of bare_record (str ''price'') = Some (PyStr []) \<and>
     map_of bare_record (str ''description'') = Some (PyStr []) \<and>
     map_of bare_record (str ''reviews'') = Some (PyStr [])"
    using bare_tags by (auto simp: bare_parse)
  from 1 2 show ?thesis
    by (simp add: plain_containers bare_tags bare_parse)
qed

subsection \<open>Claim C4\<close>

text \<open>
  Claim C4. For every path, \<open>save_csv\<close> with no records returns normally, logs one
  record at level \<open>WARNING\<close> and leaves every file as it was.
\<close>

theorem save_csv_empty:
  "save_csv [] filename w =
     (Inr (), w\<lparr>logged := logged w @ [(WARNING, ''No items to save'', [])]\<rparr>) \<and>
   files (snd (save_csv [] filename w)) = files w"
  by (simp add: save_csv_def log_to_def)

subsection \<open>Claim C5\<close>




subsection \<open>Claim C6\<close>




subsection \<open>Claim C7\<close>

text \<open>
  Claim C7, as amended. \<open>fetch\<close> logs the URL and calls \<open>get\<close> of the session. When
  \<open>get\<close> raises, \<open>fetch\<close> fails with that exception. When \<open>get\<close> returns a response
  with a status from 400 to 599, \<open>fetch\<close> fails with \<open>HTTPError\<close> carrying the status
  code. For every other status of the response it returns the text of the response.
\<close>

theorem fetch_status:
  "fetch url session timeout w =
     ((case session url timeout of
         Inl e \<Rightarrow> Inl e
       | Inr resp \<Rightarrow>
           if 400 \<le> status_code resp \<and> status_code resp < 600
           then Inl (HTTPError (status_code resp)) else Inr (resp_text resp)),
      log_to INFO ''Fetching %s'' [ArgStr url] w)"
  by (simp add: fetch_def raise_for_status_def Let_def split: sum.splits)

text \<open>
  Witness for C7, as amended: responses with the status 404, 503 and 200, and a
  session whose \<open>get\<close> raises.
\<close>

theorem fetch_status_witness:
  "fst (fetch test_url missing_session 10 empty_world) = Inl (HTTPError 404) \<and>
   fst (fetch test_url unavailable_session 10 empty_world) = Inl (HTTPError 503) \<and>
   fst (fetch test_url ok_session 10 empty_world) = Inr ''<html></html>'' \<and>
   fst (fetch test_url exhausted_session 10 empty_world) = Inl RetryError \<and>
   logged (snd (fetch test_url ok_session 10 empty_world)) =
     [(INFO, ''Fetching %s'', [ArgStr test_url])]"
  by (simp add: fetch_status missing_session_def unavailable_session_def ok_session_def
      exhausted_session_def log_to_def empty_world_def)

text \<open>
  Counterexample to C7 as stated. The status 304 is not a 2xx status, and \<open>fetch\<close>
  returns the text of the response. And when \<open>get\<close> raises \<open>RetryError\<close>, as it
  does in the session of \<open>create_session\<close> once the retries are used up on a final
  status of 500, 502, 503 or 504, \<open>fetch\<close> fails with \<open>RetryError\<close>, which carries no
  status code, not with \<open>HTTPError\<close>.
\<close>

theorem fetch_status_counterexample:
  "\<not> (200 \<le> (304::int) \<and> (304::int) < 300) \<and>
   fst (fetch test_url cached_session 10 empty_world) = Inr ''cached'' \<and>
   fst (fetch test_url exhausted_session 10 empty_world) = Inl RetryError"
  by (simp add: fetch_def raise_for_status_def cached_session_def exhausted_session_def
      Let_def)

subsection \<open>Claim C8\<close>

text \<open>
  Claim C8. When the parser gives the tree of the container of the scenario, with
  the \<open>html\<close> and \<open>body\<close> elements that lxml puts around it,
  \<open>parse_products\<close> returns exactly one record: Widget, $9.99, A widget, 12 reviews
  and /x, for every cap.
\<close>

theorem widget_scenario:
  assumes "soup_of widget_html = widget_soup"
  shows "parse_products soup_of widget_html max_items = Inr [widget_record]"
  by (cases max_items) (simp_all add: parse_products_def containers_def assms widget_containers widget_product Let_def)

text \<open>
  Witness for C8: a parser that gives this tree.
\<close>

theorem widget_scenario_witness:
  "parse_products (\<lambda>html. widget_soup) widget_html None = Inr [widget_record]"
  using widget_scenario [of "\<lambda>html. widget_soup" None] by simp

subsection \<open>Claim C9\<close>

text \<open>
  Claim C9. For a container in which \<open>a.title\<close> matches nothing, \<open>a\<close> matches an
  anchor first, and none of the selectors for the price, the description and the reviews
  matches, the record has the text of that anchor as its title, its \<open>href\<close> as its
  url, and the empty string in the other three fields.
\<close>

theorem anchor_only_container:
  assumes "parse_products soup_of html max_items = Inr items" and "i < length items"
    and "select_one (containers soup_of html ! i) ''a.title'' = None"
    and "select_one (containers soup_of html ! i) ''a'' = Some a"
    and "select_one (containers soup_of html ! i) ''h4.price'' = None"
    and "select_one (containers soup_of html ! i) ''.price'' = None"
    and "select_one (containers soup_of html ! i) ''p.description'' = None"
    and "select_one (containers soup_of html ! i) ''p'' = None"
    and "select_one (containers soup_of html ! i) ''div.ratings p.pull-right'' = None"
    and "select_one (containers soup_of html ! i) ''.ratings'' = None"
  shows "\<exists>title href. get_text (Some a) = Inr title \<and> tag_get (Some a) ''href'' = Inr href \<and>
     items ! i = [(str ''title'', PyStr title), (str ''price'', PyStr []),
        (str ''description'', PyStr []), (str ''reviews'', PyStr []), (str ''url'', href)]"
proof -
  let ?c = "containers soup_of html ! i"
  have t: "title_tag ?c = Some a" "price_tag ?c = None" "desc_tag ?c = None"
      "reviews_tag ?c = None"
    using assms(3-) by (simp_all add: title_tag_def price_tag_def desc_tag_def
        reviews_tag_def py_or_def)
  from parse_products_records [OF assms(1)] assms(2)
  have "product_record ?c = Inr (items ! i)"
    by blast
  from product_record_fields [OF this] show ?thesis
    by (auto simp: t text_or_empty_None) (simp_all add: text_or_empty_def href_or_empty_def)
qed

text \<open>
  Witness for C9: the second container of the page of three.
\<close>

theorem anchor_only_container_witness:
  "select_one (containers (\<lambda>html. shop_soup) shop_html ! 1) ''a.title'' = None \<and>
   select_one (containers (\<lambda>html. shop_soup) shop_html ! 1) ''a'' = Some gadget_anchor \<and>
   get_text (Some gadget_anchor) = Inr (str ''Gadget'') \<and>
   tag_get (Some gadget_anchor) ''href'' = Inr (PyStr (str '' /y '')) \<and>
   parse_products (\<lambda>html. shop_soup) shop_html None =
     Inr [widget_record, gadget_record, gizmo_record] \<and>
   [widget_record, gadget_record, gizmo_record] ! 1 =
     [(str ''title'', PyStr (str ''Gadget'')), (str ''price'', PyStr []), (str ''description'', PyStr []),
      (str ''reviews'', PyStr []), (str ''url'', PyStr (str '' /y ''))]"
proof -
  have "(1::nat) < length [widget_record, gadget_record, gizmo_record]" by simp
  from anchor_only_container [OF shop_all this gadget_selects]
  have "[widget_record, gadget_record, gizmo_record] ! 1 =
     [(str ''title'', PyStr (str ''Gadget'')), (str ''price'', PyStr []), (str ''description'', PyStr []),
      (str ''reviews'', PyStr []), (str ''url'', PyStr (str '' /y ''))]"
    by (simp add: gadget_anchor_values)
  then show ?thesis
    using shop_all gadget_selects(1,2) gadget_anchor_values by blast
qed

subsection \<open>Claim C10\<close>

text \<open>
  Claim C10. With a negative cap and at least one container, \<open>parse_products\<close>
  returns exactly one record, that of the first container: the cap is true, and the
  length reaches it after the first append.
\<close>

theorem parse_products_negative_cap:
  assumes "k < 0" and "containers soup_of html \<noteq> []"
  shows "\<exists>it. parse_products soup_of html (Some k) = Inr [it] \<and>
     product_record (hd (containers soup_of html)) = Inr it"
proof -
  obtain c cs where cs: "containers soup_of html = c # cs"
    using assms(2) by (cases "containers soup_of html") auto
  obtain it where it: "product_record c = Inr it"
    using product_record_total by blast
  show ?thesis using assms(1) by (simp add: parse_products_def cs it Let_def)
qed

text \<open>
  Witness for C10: the page of three containers with the cap \<open>-3\<close>.
\<close>

theorem parse_products_negative_cap_witness:
  "(- 3::int) < 0 \<and> containers (\<lambda>html. shop_soup) shop_html \<noteq> [] \<and>
   parse_products (\<lambda>html. shop_soup) shop_html (Some (- 3)) = Inr [widget_record] \<and>
   product_record (hd (containers (\<lambda>html. shop_soup) shop_html)) = Inr widget_record"
  using parse_products_negative_cap [of "- 3" "\<lambda>html. shop_soup" shop_html]
  by (auto simp: shop_containers shop_products)

end
